theory Spec2Isabelle
  imports Main
begin

section \<open>Strings\<close>

text \<open>
  Strings are lists of characters. The model covers ASCII text: letter case is folded on
  \<open>A\<close>..\<open>Z\<close> only, and white space is TAB, LF, VT, FF, CR and SPACE, which is what
  \<^verbatim>\<open>trim\<close>, \<^verbatim>\<open>toLowerCase\<close> and the class \<^verbatim>\<open>\s\<close> do on ASCII text.
\<close>

definition is_line_terminator :: "char \<Rightarrow> bool" where
  "is_line_terminator c = (c = CHR 0x0A \<or> c = CHR 0x0D)"

definition is_space :: "char \<Rightarrow> bool" where
  "is_space c = (of_char c \<in> {9::nat, 10, 11, 12, 13, 32})"

definition lower_char :: "char \<Rightarrow> char" where
  "lower_char c =
     (let n = (of_char c :: nat) in if 65 \<le> n \<and> n \<le> 90 then char_of (n + 32) else c)"

text \<open>\<^verbatim>\<open>s.toLowerCase()\<close>\<close>

definition toLowerCase :: "string \<Rightarrow> string" where
  "toLowerCase s = map lower_char s"

text \<open>\<^verbatim>\<open>s.trim()\<close>: white space is removed at both ends.\<close>

definition trim :: "string \<Rightarrow> string" where
  "trim s = rev (dropWhile is_space (rev (dropWhile is_space s)))"

text \<open>
  \<^verbatim>\<open>s.replace(/\s+/g, "-")\<close>: scanning from the left, every maximal run of white space is
  consumed whole and one hyphen is written for it.
\<close>

function replace_ws_runs :: "string \<Rightarrow> string" where
  "replace_ws_runs [] = []"
| "replace_ws_runs (c # cs) =
     (if is_space c then CHR ''-'' # replace_ws_runs (dropWhile is_space cs)
      else c # replace_ws_runs cs)"
  by pat_completeness auto
termination
  by (relation "measure length") (auto simp: length_dropWhile_le less_Suc_eq_le)

text \<open>
  \<^verbatim>\<open>s.replace('-', ' ')\<close>: with a string as the pattern, only the first occurrence is
  replaced.
\<close>

fun replace_first_hyphen :: "string \<Rightarrow> string" where
  "replace_first_hyphen [] = []"
| "replace_first_hyphen (c # cs) =
     (if c = CHR ''-'' then CHR '' '' # cs else c # replace_first_hyphen cs)"

section \<open>Patterns\<close>

text \<open>
  The update and delete handlers build \<^verbatim>\<open>new RegExp(`^${key}$`, "i")\<close> from the raw path
  key and hand it to the repository as the filter on \<open>username\<close>. The model reads the
  pattern language on a fragment: ordinary characters, the dot, and the postfix quantifiers
  \<^verbatim>\<open>*\<close>, \<^verbatim>\<open>+\<close>, \<^verbatim>\<open>?\<close> (each with an optional lazy mark \<^verbatim>\<open>?\<close>) on a single character or
  dot, between the leading \<^verbatim>\<open>^\<close> and the trailing \<^verbatim>\<open>$\<close>. A quantifier with nothing before it
  makes the constructor throw. A source that uses any other metacharacter is outside the
  fragment, and the engine's verdict on it is a parameter of the model (\<open>regexp_other\<close>
  below).

  The pattern is built by the language's constructor and evaluated by the database server.
  The two engines agree on the fragment as long as the subject holds no line terminator
  (LF, CR); on a subject that holds one they differ (whether the dot matches CR, whether
  the closing \<^verbatim>\<open>$\<close> matches before a final LF), and the verdict on such a subject is a
  parameter as well (\<open>regexp_lines\<close> below). \<open>match_items\<close> is the test on the other
  subjects.
\<close>

datatype atom = Lit char | AnyChar

datatype quant = Once | Opt | Star | Plus

datatype compiled = Items "(atom \<times> quant) list" | Nothing_to_repeat | Outside

definition is_quantifier :: "char \<Rightarrow> bool" where
  "is_quantifier c = (c \<in> set ''*+?'')"

definition is_other_meta :: "char \<Rightarrow> bool" where
  "is_other_meta c = (c = CHR 0x5C \<or> c \<in> set ''^$()[]{}|'')"

fun skip_lazy :: "string \<Rightarrow> string" where
  "skip_lazy [] = []"
| "skip_lazy (c # cs) = (if c = CHR ''?'' then cs else c # cs)"

fun take_quant :: "string \<Rightarrow> quant \<times> string" where
  "take_quant [] = (Once, [])"
| "take_quant (c # cs) =
     (if c = CHR ''*'' then (Star, skip_lazy cs)
      else if c = CHR ''+'' then (Plus, skip_lazy cs)
      else if c = CHR ''?'' then (Opt, skip_lazy cs)
      else (Once, c # cs))"

lemma length_skip_lazy: "length (skip_lazy cs) \<le> length cs"
  by (cases cs) auto

lemma length_take_quant: "length (snd (take_quant cs)) \<le> length cs"
  using length_skip_lazy [of "tl cs"] by (cases cs) (auto simp: le_Suc_eq)

text \<open>The part of the source after the leading \<^verbatim>\<open>^\<close>, up to and with the closing \<^verbatim>\<open>$\<close>.\<close>

function parse_atoms :: "string \<Rightarrow> compiled" where
  "parse_atoms [] = Outside"
| "parse_atoms (c # cs) =
     (if c = CHR ''$'' \<and> cs = [] then Items []
      else if is_quantifier c then Nothing_to_repeat
      else if is_other_meta c then Outside
      else (case parse_atoms (snd (take_quant cs)) of
              Items its \<Rightarrow>
                Items ((if c = CHR ''.'' then AnyChar else Lit c, fst (take_quant cs)) # its)
            | r \<Rightarrow> r))"
  by pat_completeness auto
termination
  by (relation "measure length") (auto simp: length_take_quant less_Suc_eq_le)

definition compile :: "string \<Rightarrow> compiled" where
  "compile src = (case src of [] \<Rightarrow> Outside
                  | c # cs \<Rightarrow> if c = CHR ''^'' then parse_atoms cs else Outside)"

text \<open>With the flag \<^verbatim>\<open>i\<close>, a character of the pattern matches in either case.\<close>

fun atom_matches :: "atom \<Rightarrow> char \<Rightarrow> bool" where
  "atom_matches (Lit p) c = (lower_char p = lower_char c)"
| "atom_matches AnyChar c = True"

text \<open>Does the whole subject match the items, from its start to the closing \<^verbatim>\<open>$\<close>?\<close>

fun match_items :: "(atom \<times> quant) list \<Rightarrow> string \<Rightarrow> bool" where
  "match_items [] s = (s = [])"
| "match_items ((a, Once) # r) [] = False"
| "match_items ((a, Once) # r) (c # cs) = (atom_matches a c \<and> match_items r cs)"
| "match_items ((a, Opt) # r) [] = match_items r []"
| "match_items ((a, Opt) # r) (c # cs) =
     (match_items r (c # cs) \<or> (atom_matches a c \<and> match_items r cs))"
| "match_items ((a, Star) # r) [] = match_items r []"
| "match_items ((a, Star) # r) (c # cs) =
     (match_items r (c # cs) \<or> (atom_matches a c \<and> match_items ((a, Star) # r) cs))"
| "match_items ((a, Plus) # r) [] = False"
| "match_items ((a, Plus) # r) (c # cs) =
     (atom_matches a c \<and> match_items ((a, Star) # r) cs)"

section \<open>Profiles, requests and the collaborators\<close>

text \<open>
  A JSON value, as \<^verbatim>\<open>JSON.parse\<close> returns it and as \<open>socialLinks\<close> holds it.
  Numbers are restricted to integers.
\<close>

datatype json = JNull | JBool bool | JNum int | JStr string | JArr "json list"
  | JObj "(string \<times> json) list"

text \<open>
  The fields of \<^verbatim>\<open>ProfileSchema\<close>. Every field is optional in the record: \<open>None\<close> is
  JavaScript's \<^verbatim>\<open>undefined\<close> in a request body and a null or absent field in a
  stored document (an update can null any field, see \<open>update_profile\<close>). A request body
  has the same fields; its \<open>socialLinks\<close> is a JSON value in a create request and a
  serialized string in an update request, hence the type parameter. A field that is
  present has the type that the schema gives it.
\<close>

record 'l profile =
  username :: "string option"
  name :: "string option"
  jobTitle :: "string option"
  profileImage :: "string option"
  headerImage :: "string option"
  phone :: "string option"
  email :: "string option"
  isVerified :: "bool option"
  isCompany :: "bool option"
  socialLinks :: "'l option"

type_synonym document = "json profile"

text \<open>
  A request: \<^verbatim>\<open>req.body\<close> and the buffers of the first uploaded file of each of the two
  file fields (\<^verbatim>\<open>req.files.profileImage[0].buffer\<close>), when one is attached.
\<close>

record 'l request =
  body :: "'l profile"
  profileImageFile :: "string option"
  headerImageFile :: "string option"

text \<open>
  What a handler can throw or catch. \<^verbatim>\<open>err.code\<close> is defined for the database server's
  errors only; the image store's error carries its message.
\<close>

datatype js_error =
    SyntaxError
  | UploadError string
  | ValidationError "string list"
  | MongoServerError nat

fun err_code :: "js_error \<Rightarrow> nat option" where
  "err_code (MongoServerError c) = Some c"
| "err_code _ = None"

text \<open>
  The collaborators that are not the repository: the image store
  (\<^verbatim>\<open>cloudinary.uploader.upload_stream\<close>: the buffer to an error message or to the
  \<^verbatim>\<open>secure_url\<close>), \<^verbatim>\<open>JSON.parse\<close> (\<open>None\<close> when it throws a SyntaxError), and the
  pattern engine where the model does not decide: on a source outside the fragment of
  section Patterns (\<open>None\<close> when the constructor throws, else the test on a subject), and
  on a subject with a line terminator (the source and the subject to the verdict). The last
  field is a setting of the repository's library, which the sources do not fix: what an
  update does with a field whose value is \<^verbatim>\<open>undefined\<close> (see \<open>findOneAndUpdate\<close>).
\<close>

record env =
  upload_stream :: "string \<Rightarrow> string + string"
  json_parse :: "string \<Rightarrow> json option"
  regexp_other :: "string \<Rightarrow> (string \<Rightarrow> bool) option"
  regexp_lines :: "string \<Rightarrow> string \<Rightarrow> bool"
  omit_undefined :: bool

text \<open>The test that a compiled source of the fragment stands for.\<close>

definition test_items :: "env \<Rightarrow> string \<Rightarrow> (atom \<times> quant) list \<Rightarrow> string \<Rightarrow> bool" where
  "test_items e src its u =
     (if \<exists>c \<in> set u. is_line_terminator c then regexp_lines e src u else match_items its u)"

text \<open>\<^verbatim>\<open>new RegExp(src, "i")\<close>, as the test it stands for.\<close>

definition regexp :: "env \<Rightarrow> string \<Rightarrow> (string \<Rightarrow> bool) option" where
  "regexp e src =
     (case compile src of
        Items its \<Rightarrow> Some (test_items e src its)
      | Nothing_to_repeat \<Rightarrow> None
      | Outside \<Rightarrow> regexp_other e src)"

text \<open>
  The responses. \<open>Created\<close> is the body of the create handler's 201
  (\<^verbatim>\<open>{message, profileKey, profile}\<close>), \<open>Message_Error\<close> a message with the caught
  error beside it, \<open>Error_Message\<close> the caught error's own message.
\<close>

datatype resp_body =
    Message string
  | Message_Error string js_error
  | Error_Message js_error
  | Created string document
  | Document document

text \<open>A handler answers with a status and a body, or lets an error escape.\<close>

datatype outcome = Responded nat resp_body | Uncaught js_error

text \<open>The calls to the collaborators that a handler makes, in order.\<close>

datatype call = Upload string | FindOne | Save | FindOneAndUpdate | FindOneAndDelete

section \<open>The repository\<close>

text \<open>
  The Profile Repository is the document store behind the model \<^verbatim>\<open>Profile\<close>, an
  external collaborator of the handlers. The model gives the four calls that the handlers
  make (find-one, insert, find-and-update, find-and-delete) their documented behaviour on
  one collection; the required fields, the unique index on \<open>username\<close> and the defaults
  are those that \<^verbatim>\<open>ProfileSchema\<close> declares. The repository answers every call. The
  collection is the list of its documents, in the order in which the server's scan visits
  them; a new document goes to the end.
\<close>

definition has_username :: "string \<Rightarrow> document \<Rightarrow> bool" where
  "has_username u p = (username p = Some u)"

text \<open>A pattern filter on \<open>username\<close> matches strings only.\<close>

definition username_matches :: "(string \<Rightarrow> bool) \<Rightarrow> document \<Rightarrow> bool" where
  "username_matches t p = (case username p of None \<Rightarrow> False | Some u \<Rightarrow> t u)"

text \<open>\<^verbatim>\<open>Profile.findOne(filter)\<close>\<close>

definition findOne :: "(document \<Rightarrow> bool) \<Rightarrow> document list \<Rightarrow> document option" where
  "findOne f db = find f db"

text \<open>A required string is present and not empty.\<close>

definition required_ok :: "string option \<Rightarrow> bool" where
  "required_ok v = (case v of None \<Rightarrow> False | Some s \<Rightarrow> s \<noteq> [])"

definition missing_paths :: "document \<Rightarrow> string list" where
  "missing_paths d =
     (if required_ok (username d) then [] else [''username'']) @
     (if required_ok (name d) then [] else [''name'']) @
     (if required_ok (jobTitle d) then [] else [''jobTitle''])"

text \<open>The schema's defaults, applied when a document is built.\<close>

definition with_defaults :: "document \<Rightarrow> document" where
  "with_defaults d =
     d\<lparr>isVerified := (case isVerified d of None \<Rightarrow> Some False | Some b \<Rightarrow> Some b),
       isCompany := (case isCompany d of None \<Rightarrow> Some False | Some b \<Rightarrow> Some b)\<rparr>"

text \<open>
  \<^verbatim>\<open>new Profile(d).save()\<close>: the schema's validation first, then the insert, which the
  unique index refuses with the error code 11000.
\<close>

definition save :: "document \<Rightarrow> document list \<Rightarrow> js_error + (document \<times> document list)" where
  "save d db =
     (let doc = with_defaults d in
      if missing_paths doc \<noteq> [] then Inl (ValidationError (missing_paths doc))
      else if \<exists>p \<in> set db. username p = username doc then Inl (MongoServerError 11000)
      else Inr (doc, db @ [doc]))"

text \<open>\<^verbatim>\<open>Profile.findOneAndDelete(filter)\<close>: the first match is removed and returned.\<close>

fun findOneAndDelete ::
  "(document \<Rightarrow> bool) \<Rightarrow> document list \<Rightarrow> document option \<times> document list" where
  "findOneAndDelete f [] = (None, [])"
| "findOneAndDelete f (p # ps) =
     (if f p then (Some p, ps)
      else (case findOneAndDelete f ps of (r, ps') \<Rightarrow> (r, p # ps')))"

text \<open>
  \<^verbatim>\<open>Profile.findOneAndUpdate(filter, update, { new: true })\<close> with an update that has
  no operator: every field that the update names is set on the first match, and the updated
  document is returned. A field whose value in the update is \<^verbatim>\<open>undefined\<close> is written
  as null, or is dropped from the update so that the stored value stays, as the library is
  set (\<open>omit\<close>); the library's older releases write null unless told to omit, its later
  ones always omit.
\<close>

definition set_field :: "bool \<Rightarrow> 'a option \<Rightarrow> 'a option \<Rightarrow> 'a option" where
  "set_field omit old new =
     (case new of Some v \<Rightarrow> Some v | None \<Rightarrow> if omit then old else None)"

definition apply_update :: "bool \<Rightarrow> document \<Rightarrow> document \<Rightarrow> document" where
  "apply_update omit upd p =
     \<lparr>username = set_field omit (username p) (username upd),
      name = set_field omit (name p) (name upd),
      jobTitle = set_field omit (jobTitle p) (jobTitle upd),
      profileImage = set_field omit (profileImage p) (profileImage upd),
      headerImage = set_field omit (headerImage p) (headerImage upd),
      phone = set_field omit (phone p) (phone upd),
      email = set_field omit (email p) (email upd),
      isVerified = set_field omit (isVerified p) (isVerified upd),
      isCompany = set_field omit (isCompany p) (isCompany upd),
      socialLinks = set_field omit (socialLinks p) (socialLinks upd)\<rparr>"

text \<open>
  The unique index refuses a \<open>username\<close> that another document holds. \<open>seen\<close> holds
  the documents before the one looked at.
\<close>

fun findOneAndUpdate_from ::
  "bool \<Rightarrow> document list \<Rightarrow> (document \<Rightarrow> bool) \<Rightarrow> document \<Rightarrow> document list \<Rightarrow>
   js_error + (document option \<times> document list)" where
  "findOneAndUpdate_from omit seen f upd [] = Inr (None, seen)"
| "findOneAndUpdate_from omit seen f upd (p # ps) =
     (if f p then
        (if \<exists>q \<in> set (seen @ ps). username q = username (apply_update omit upd p)
         then Inl (MongoServerError 11000)
         else Inr (Some (apply_update omit upd p), seen @ apply_update omit upd p # ps))
      else findOneAndUpdate_from omit (seen @ [p]) f upd ps)"

definition findOneAndUpdate ::
  "bool \<Rightarrow> (document \<Rightarrow> bool) \<Rightarrow> document \<Rightarrow> document list \<Rightarrow>
   js_error + (document option \<times> document list)" where
  "findOneAndUpdate omit f upd db = findOneAndUpdate_from omit [] f upd db"

section \<open>The handlers\<close>

text \<open>
  A handler takes the request and the collection and returns its outcome, the collection
  afterwards and the calls it made.
\<close>

type_synonym result = "outcome \<times> document list \<times> call list"

text \<open>
  One image field: with a file attached its buffer is uploaded and the URL of the upload
  is the value (a failure is the store's error, rethrown); with no file the value is
  \<open>dflt\<close>.
\<close>

definition upload_or ::
  "env \<Rightarrow> string option \<Rightarrow> string option \<Rightarrow> (js_error + string option) \<times> call list" where
  "upload_or e dflt file =
     (case file of
        None \<Rightarrow> (Inr dflt, [])
      | Some buf \<Rightarrow>
          (case upload_stream e buf of
             Inl m \<Rightarrow> (Inl (UploadError m), [Upload buf])
           | Inr url \<Rightarrow> (Inr (Some url), [Upload buf])))"

text \<open>\<^verbatim>\<open>username.toLowerCase().replace(/\s+/g, "-")\<close>\<close>

definition profile_key :: "string \<Rightarrow> string" where
  "profile_key u = replace_ws_runs (toLowerCase u)"

text \<open>The \<^verbatim>\<open>catch\<close> of the create handler.\<close>

definition create_catch :: "js_error \<Rightarrow> outcome" where
  "create_catch err =
     (if err_code err = Some 11000
      then Responded 400 (Message ''Profile key or username already exists.'')
      else Responded 500 (Message_Error ''Server error'' err))"

text \<open>
  \<^verbatim>\<open>app.post("/api/save-profile")\<close>. The handler is suspended between its look-up and
  its insert, where other requests run: \<open>concurrent\<close> is what they do to the collection
  in between (the identity when the request runs alone).
\<close>

definition save_profile ::
  "env \<Rightarrow> (document list \<Rightarrow> document list) \<Rightarrow> json request \<Rightarrow> document list \<Rightarrow> result" where
  "save_profile e concurrent req db =
     (let b = body req in
      case username b of
        None \<Rightarrow>
          (Responded 400 (Message ''Username must be at least 3 characters long.''), db, [])
      | Some u \<Rightarrow>
          if u = [] \<or> length (trim u) < 3
          then (Responded 400 (Message ''Username must be at least 3 characters long.''),
                db, [])
          else
            (case findOne (has_username u) db of
               Some existing \<Rightarrow>
                 (Responded 400 (Message ''Username is already taken.''), db, [FindOne])
             | None \<Rightarrow>
                 (let db1 = concurrent db in
                  case upload_or e (Some []) (profileImageFile req) of
                    (Inl err, t1) \<Rightarrow> (create_catch err, db1, FindOne # t1)
                  | (Inr profileImageUrl, t1) \<Rightarrow>
                      (case upload_or e (Some []) (headerImageFile req) of
                         (Inl err, t2) \<Rightarrow> (create_catch err, db1, FindOne # t1 @ t2)
                       | (Inr headerImageUrl, t2) \<Rightarrow>
                           (case save (b\<lparr>profileImage := profileImageUrl,
                                          headerImage := headerImageUrl\<rparr>) db1 of
                              Inl err \<Rightarrow>
                                (create_catch err, db1, FindOne # t1 @ t2 @ [Save])
                            | Inr (savedProfile, db2) \<Rightarrow>
                                (Responded 201 (Created (profile_key u) savedProfile),
                                 db2, FindOne # t1 @ t2 @ [Save]))))))"


text \<open>
  \<^verbatim>\<open>app.delete("/api/profiles/:profileKey")\<close>. The pattern is built inside the
  \<^verbatim>\<open>try\<close>: a constructor that throws is answered with 500.
\<close>

definition delete_profile :: "env \<Rightarrow> string \<Rightarrow> document list \<Rightarrow> result" where
  "delete_profile e profileKey db =
     (case regexp e (''^'' @ replace_first_hyphen profileKey @ ''$'') of
        None \<Rightarrow> (Responded 500 (Error_Message SyntaxError), db, [])
      | Some t \<Rightarrow>
          (case findOneAndDelete (username_matches t) db of
             (None, db') \<Rightarrow>
               (Responded 404 (Message ''Profile not found''), db, [FindOneAndDelete])
           | (Some p, db') \<Rightarrow>
               (Responded 200 (Message ''Profile deleted successfully''), db',
                [FindOneAndDelete])))"

text \<open>The \<^verbatim>\<open>catch\<close> of the update handler.\<close>

definition update_catch :: "js_error \<Rightarrow> outcome" where
  "update_catch err = Responded 500 (Message_Error ''Error updating profile'' err)"

text \<open>
  \<^verbatim>\<open>if (socialLinks) parsedSocialLinks = JSON.parse(socialLinks)\<close>, else the empty
  object; an absent and an empty string are both falsy. \<open>None\<close> is the SyntaxError.
\<close>

definition parse_socialLinks :: "env \<Rightarrow> string option \<Rightarrow> json option" where
  "parse_socialLinks e v =
     (case v of
        None \<Rightarrow> Some (JObj [])
      | Some s \<Rightarrow> if s = [] then Some (JObj []) else json_parse e s)"

text \<open>
  The update object of the update handler: the fields of the body, the two image URLs and
  the parsed \<open>socialLinks\<close>.
\<close>

definition update_fields ::
  "string profile \<Rightarrow> string option \<Rightarrow> string option \<Rightarrow> json \<Rightarrow> document" where
  "update_fields b profileImageUrl headerImageUrl parsedSocialLinks =
     \<lparr>username = username b, name = name b, jobTitle = jobTitle b,
      profileImage = profileImageUrl, headerImage = headerImageUrl,
      phone = phone b, email = email b,
      isVerified = isVerified b, isCompany = isCompany b,
      socialLinks = Some parsedSocialLinks\<rparr>"

text \<open>
  \<^verbatim>\<open>app.put("/api/update-profile/:profileKey")\<close>. \<^verbatim>\<open>JSON.parse\<close> is called before the
  \<^verbatim>\<open>try\<close> opens, so its error escapes the handler; the uploads, the pattern and the
  repository call are inside the \<^verbatim>\<open>try\<close>. The schema's casting of the parsed value is not
  modelled: the document holds the value as parsed.
\<close>

definition update_profile :: "env \<Rightarrow> string \<Rightarrow> string request \<Rightarrow> document list \<Rightarrow> result" where
  "update_profile e profileKey req db =
     (let b = body req in
      case parse_socialLinks e (socialLinks b) of
        None \<Rightarrow> (Uncaught SyntaxError, db, [])
      | Some parsedSocialLinks \<Rightarrow>
          (case upload_or e (profileImage b) (profileImageFile req) of
             (Inl err, t1) \<Rightarrow> (update_catch err, db, t1)
           | (Inr profileImageUrl, t1) \<Rightarrow>
               (case upload_or e (headerImage b) (headerImageFile req) of
                  (Inl err, t2) \<Rightarrow> (update_catch err, db, t1 @ t2)
                | (Inr headerImageUrl, t2) \<Rightarrow>
                    (case regexp e (''^'' @ profileKey @ ''$'') of
                       None \<Rightarrow> (update_catch SyntaxError, db, t1 @ t2)
                     | Some t \<Rightarrow>
                         (case findOneAndUpdate (omit_undefined e) (username_matches t)
                                 (update_fields b profileImageUrl headerImageUrl
                                    parsedSocialLinks) db of
                            Inl err \<Rightarrow>
                              (update_catch err, db, t1 @ t2 @ [FindOneAndUpdate])
                          | Inr (None, db') \<Rightarrow>
                              (Responded 404 (Message ''Profile not found''), db,
                               t1 @ t2 @ [FindOneAndUpdate])
                          | Inr (Some updatedProfile, db') \<Rightarrow>
                              (Responded 200 (Document updatedProfile), db',
                               t1 @ t2 @ [FindOneAndUpdate]))))))"

section \<open>Collaborators and requests of the examples\<close>

text \<open>
  An image store that refuses an empty buffer and answers any other with a URL, a parser
  that reads the text of the empty object and refuses every other text (among them the
  malformed \<^verbatim>\<open>{\<close>), and an engine that compiles nothing outside the fragment. The
  theorems below hold for every environment; this one instantiates them.
\<close>

definition example_env :: env where
  "example_env =
     \<lparr>upload_stream =
        (\<lambda>buf. if buf = [] then Inl ''Empty file'' else Inr (''https://img.example/'' @ buf)),
      json_parse = (\<lambda>s. if s = ''{}'' then Some (JObj []) else None),
      regexp_other = (\<lambda>src. None),
      regexp_lines = (\<lambda>src u. False),
      omit_undefined = False\<rparr>"


text \<open>A body with no field set.\<close>

definition no_fields :: "'l profile" where
  "no_fields =
     \<lparr>username = None, name = None, jobTitle = None, profileImage = None,
      headerImage = None, phone = None, email = None, isVerified = None, isCompany = None,
      socialLinks = None\<rparr>"





definition failing_request :: "json request" where
  "failing_request =
     \<lparr>body = no_fields\<lparr>username := Some ''jane-doe'', name := Some ''Jane'',
                        jobTitle := Some ''Eng''\<rparr>,
      profileImageFile = Some ''png'', headerImageFile = Some []\<rparr>"

definition nameless_request :: "json request" where
  "nameless_request =
     \<lparr>body = no_fields\<lparr>username := Some ''jane-doe'', jobTitle := Some ''Eng''\<rparr>,
      profileImageFile = None, headerImageFile = None\<rparr>"


definition abc_doc :: document where
  "abc_doc =
     \<lparr>username = Some ''abc'', name = Some ''Abe'', jobTitle = Some ''Clerk'',
      profileImage = Some ''https://img.example/old'', headerImage = Some [],
      phone = Some ''555-0100'', email = Some ''abe@example.org'',
      isVerified = Some True, isCompany = Some False, socialLinks = None\<rparr>"

definition rename_request :: "string request" where
  "rename_request =
     \<lparr>body = no_fields\<lparr>username := Some ''renamed'', name := Some ''Abe'',
                        jobTitle := Some ''Clerk'',
                        profileImage := Some ''https://img.example/old''\<rparr>,
      profileImageFile = None, headerImageFile = None\<rparr>"

definition renamed_doc :: document where
  "renamed_doc =
     \<lparr>username = Some ''renamed'', name = Some ''Abe'', jobTitle = Some ''Clerk'',
      profileImage = Some ''https://img.example/old'', headerImage = None,
      phone = None, email = None, isVerified = None, isCompany = None,
      socialLinks = Some (JObj [])\<rparr>"

definition john_smith_doc :: document where
  "john_smith_doc =
     \<lparr>username = Some ''John Smith'', name = Some ''John'', jobTitle = Some ''Eng'',
      profileImage = Some [], headerImage = Some [], phone = None, email = None,
      isVerified = Some False, isCompany = Some False, socialLinks = None\<rparr>"

definition jr_doc :: document where
  "jr_doc =
     \<lparr>username = Some ''John Smith-Jr'', name = Some ''John'', jobTitle = Some ''Eng'',
      profileImage = Some [], headerImage = Some [], phone = None, email = None,
      isVerified = Some False, isCompany = Some False, socialLinks = None\<rparr>"









section \<open>Keys without metacharacters\<close>

text \<open>
  A key is plain when none of its characters is a metacharacter of the pattern language;
  the pattern built from a plain key is the list of its characters, each to be matched
  once.
\<close>

definition is_plain :: "string \<Rightarrow> bool" where
  "is_plain k = (\<forall>c \<in> set k. \<not> is_quantifier c \<and> \<not> is_other_meta c \<and> c \<noteq> CHR ''.'')"

definition literal_items :: "string \<Rightarrow> (atom \<times> quant) list" where
  "literal_items k = map (\<lambda>c. (Lit c, Once)) k"

section \<open>Facts about the strings and the repository\<close>


lemma trim_jane: "trim ''jane-doe'' = ''jane-doe''"
  by code_simp













lemma findOne_None_iff: "findOne f db = None \<longleftrightarrow> (\<forall>p \<in> set db. \<not> f p)"
  by (auto simp: findOne_def find_None_iff)




lemma findOneAndDelete_none:
  "\<forall>p \<in> set db. \<not> f p \<Longrightarrow> findOneAndDelete f db = (None, db)"
  by (induction db) simp_all

lemma findOneAndDelete_first:
  "f p \<Longrightarrow> \<forall>q \<in> set pre. \<not> f q \<Longrightarrow>
   findOneAndDelete f (pre @ p # post) = (Some p, pre @ post)"
  by (induction pre) simp_all




lemma take_quant_plain:
  "\<not> is_quantifier c \<Longrightarrow> take_quant (c # cs) = (Once, c # cs)"
  by (auto simp: is_quantifier_def)

lemma dollar_not_quantifier: "\<not> is_quantifier CHR ''$''"
  by (simp add: is_quantifier_def)

lemma parse_atoms_plain:
  "is_plain k \<Longrightarrow> parse_atoms (k @ ''$'') = Items (literal_items k)"
proof (induction k)
  case Nil
  then show ?case by (simp add: literal_items_def)
next
  case (Cons c k)
  then have c: "\<not> is_quantifier c" "\<not> is_other_meta c" "c \<noteq> CHR ''.''" and k: "is_plain k"
    by (simp_all add: is_plain_def)
  have c': "c \<noteq> CHR ''$''" using c(2) by (auto simp: is_other_meta_def)
  have tq: "take_quant (k @ ''$'') = (Once, k @ ''$'')"
  proof (cases k)
    case Nil
    then show ?thesis by (simp add: take_quant_plain dollar_not_quantifier)
  next
    case (Cons d ds)
    then have "\<not> is_quantifier d" using k by (simp add: is_plain_def)
    then show ?thesis using Cons by (simp add: take_quant_plain del: take_quant.simps)
  qed
  show ?case
    using c c' Cons.IH [OF k] tq by (simp add: literal_items_def)
qed

lemma regexp_plain:
  "is_plain k \<Longrightarrow>
   regexp e (''^'' @ k @ ''$'') = Some (test_items e (''^'' @ k @ ''$'') (literal_items k))"
  by (simp add: regexp_def compile_def parse_atoms_plain)

lemma match_literal:
  "match_items (literal_items k) u \<longleftrightarrow> toLowerCase u = toLowerCase k"
proof (induction k arbitrary: u)
  case Nil
  show ?case
    by (cases u) (auto simp: literal_items_def toLowerCase_def)
next
  case (Cons c k)
  show ?case
  proof (cases u)
    case Nil
    then show ?thesis by (simp add: literal_items_def toLowerCase_def)
  next
    case (Cons d ds)
    then show ?thesis
      using Cons.IH [of ds] by (auto simp: literal_items_def toLowerCase_def)
  qed
qed

lemma test_items_plain:
  "\<forall>c \<in> set u. \<not> is_line_terminator c \<Longrightarrow>
   test_items e src (literal_items k) u \<longleftrightarrow> toLowerCase u = toLowerCase k"
  by (simp add: test_items_def match_literal)

lemma test_items_no_lines:
  "\<forall>c \<in> set u. \<not> is_line_terminator c \<Longrightarrow> test_items e src its u = match_items its u"
  by (simp add: test_items_def)

lemma no_lines_examples:
  "\<forall>c \<in> set ''John Smith-Jr''. \<not> is_line_terminator c"
  "\<forall>c \<in> set ''John Smith''. \<not> is_line_terminator c"
  "\<forall>c \<in> set ''jane-doe''. \<not> is_line_terminator c"
  "\<forall>c \<in> set ''John  Smith''. \<not> is_line_terminator c"
  by (simp_all add: is_line_terminator_def)

lemma replace_first_hyphen_first:
  "CHR ''-'' \<notin> set a \<Longrightarrow> replace_first_hyphen (a @ ''-'' @ b) = a @ '' '' @ b"
  by (induction a) auto

lemma replace_first_hyphen_none:
  "CHR ''-'' \<notin> set key \<Longrightarrow> replace_first_hyphen key = key"
  by (induction key) auto

section \<open>Create\<close>





text \<open>
  Claim C6. In a run of the create handler in which an upload was made and the image
  store refused it, the answer is 500 with the store's error beside the message ``Server
  error'', the handler has not called the insert, and the collection is what the concurrent
  requests left (the request itself stored nothing; with no concurrent request the
  collection is as it was).
\<close>

theorem create_upload_failure:
  assumes run: "save_profile e concurrent req db = (out, db', t)"
    and tried: "Upload buf \<in> set t"
    and failed: "upload_stream e buf = Inl m"
  shows "out = Responded 500 (Message_Error ''Server error'' (UploadError m)) \<and>
         db' = concurrent db \<and> Save \<notin> set t"
  using assms
  by (auto simp: save_profile_def Let_def upload_or_def create_catch_def
      split: option.splits if_splits sum.splits prod.splits)

lemma create_failing_trace:
  "snd (snd (save_profile example_env id failing_request [])) =
     [FindOne, Upload ''png'', Upload []]"
  by code_simp

theorem create_upload_failure_witness:
  "Upload [] \<in> set (snd (snd (save_profile example_env id failing_request []))) \<and>
   upload_stream example_env [] = Inl ''Empty file'' \<and>
   save_profile example_env id failing_request [] =
     (Responded 500 (Message_Error ''Server error'' (UploadError ''Empty file'')), [],
      [FindOne, Upload ''png'', Upload []])"
proof -
  obtain out db' t where run: "save_profile example_env id failing_request [] = (out, db', t)"
    by (cases "save_profile example_env id failing_request []") auto
  have t: "t = [FindOne, Upload ''png'', Upload []]"
    using create_failing_trace run by simp
  have tried: "Upload [] \<in> set t" using t by simp
  have failed: "upload_stream example_env [] = Inl ''Empty file''"
    by (simp add: example_env_def)
  from create_upload_failure [OF run tried failed] run t tried failed
  show ?thesis by simp
qed




lemma save_profile_not_saved:
  assumes "name (body req) = None \<or> jobTitle (body req) = None"
    and "save_profile e concurrent req db = (out, db', t)"
  shows "(\<exists>b. out = Responded 400 b \<or> out = Responded 500 b) \<and> (db' = db \<or> db' = concurrent db)"
  using assms
  by (auto simp: save_profile_def Let_def create_catch_def save_def missing_paths_def
      required_ok_def with_defaults_def
      split: option.splits if_splits sum.splits prod.splits)

text \<open>
  Claim C8, as the code has it. A create request with no \<open>name\<close> or no \<open>jobTitle\<close> never
  stores a document and is always answered with 400 or 500. The handler checks the
  \<open>username\<close> only; the two fields are checked by the schema when the document is
  saved, and the \<^verbatim>\<open>catch\<close> answers every error but the code 11000 with 500. So a
  request that passes the username validation and the look-up, and whose uploads succeed, is
  answered with 500 and the validation error that names the missing fields, not with 400.
\<close>

theorem create_missing_required:
  assumes missing: "name (body req) = None \<or> jobTitle (body req) = None"
  shows "(\<forall>out db' t. save_profile e concurrent req db = (out, db', t) \<longrightarrow>
            (\<exists>b. out = Responded 400 b \<or> out = Responded 500 b) \<and>
            (db' = db \<or> db' = concurrent db)) \<and>
         (\<forall>u. username (body req) = Some u \<and> 3 \<le> length (trim u) \<and>
              (\<forall>p \<in> set db. username p \<noteq> Some u) \<and>
              upload_or e (Some []) (profileImageFile req) = (Inr profileImageUrl, t1) \<and>
              upload_or e (Some []) (headerImageFile req) = (Inr headerImageUrl, t2) \<longrightarrow>
              save_profile e concurrent req db =
                (Responded 500 (Message_Error ''Server error''
                   (ValidationError
                      ((if required_ok (name (body req)) then [] else [''name'']) @
                       (if required_ok (jobTitle (body req)) then [] else [''jobTitle''])))),
                 concurrent db, FindOne # t1 @ t2 @ [Save]))"
proof (intro conjI allI impI)
  fix out db' t
  assume "save_profile e concurrent req db = (out, db', t)"
  from save_profile_not_saved [OF missing this]
  show "\<exists>b. out = Responded 400 b \<or> out = Responded 500 b" and "db' = db \<or> db' = concurrent db"
    by blast+
next
  fix u
  assume reach: "username (body req) = Some u \<and> 3 \<le> length (trim u) \<and>
              (\<forall>p \<in> set db. username p \<noteq> Some u) \<and>
              upload_or e (Some []) (profileImageFile req) = (Inr profileImageUrl, t1) \<and>
              upload_or e (Some []) (headerImageFile req) = (Inr headerImageUrl, t2)"
  then have ne: "u \<noteq> []" by (auto simp: trim_def)
  have absent: "findOne (has_username u) db = None"
    using reach by (simp add: findOne_None_iff has_username_def)
  have "save ((body req)\<lparr>profileImage := profileImageUrl, headerImage := headerImageUrl\<rparr>)
          (concurrent db) =
        Inl (ValidationError
               ((if required_ok (name (body req)) then [] else [''name'']) @
                (if required_ok (jobTitle (body req)) then [] else [''jobTitle''])))"
    using missing reach ne
    by (auto simp: save_def Let_def with_defaults_def missing_paths_def required_ok_def)
  then show "save_profile e concurrent req db =
                (Responded 500 (Message_Error ''Server error''
                   (ValidationError
                      ((if required_ok (name (body req)) then [] else [''name'']) @
                       (if required_ok (jobTitle (body req)) then [] else [''jobTitle''])))),
                 concurrent db, FindOne # t1 @ t2 @ [Save])"
    using reach ne absent by (simp add: save_profile_def Let_def create_catch_def)
qed

theorem create_missing_required_witness:
  "name (body nameless_request) = None \<and>
   fst (save_profile example_env id nameless_request []) =
     Responded 500 (Message_Error ''Server error'' (ValidationError [''name''])) \<and>
   fst (snd (save_profile example_env id nameless_request [])) = []"
proof -
  have missing: "name (body nameless_request) = None \<or> jobTitle (body nameless_request) = None"
    by (simp add: nameless_request_def no_fields_def)
  have reach: "username (body nameless_request) = Some ''jane-doe'' \<and>
      3 \<le> length (trim ''jane-doe'') \<and>
      (\<forall>p \<in> set ([] :: document list). username p \<noteq> Some ''jane-doe'') \<and>
      upload_or example_env (Some []) (profileImageFile nameless_request) = (Inr (Some []), []) \<and>
      upload_or example_env (Some []) (headerImageFile nameless_request) = (Inr (Some []), [])"
    by (simp add: nameless_request_def no_fields_def trim_jane upload_or_def)
  from create_missing_required [OF missing, of example_env id "[]" "Some []" "[]" "Some []" "[]"]
  have "\<forall>u. username (body nameless_request) = Some u \<and> 3 \<le> length (trim u) \<and>
              (\<forall>p \<in> set ([] :: document list). username p \<noteq> Some u) \<and>
              upload_or example_env (Some []) (profileImageFile nameless_request) = (Inr (Some []), []) \<and>
              upload_or example_env (Some []) (headerImageFile nameless_request) = (Inr (Some []), []) \<longrightarrow>
              save_profile example_env id nameless_request [] =
                (Responded 500 (Message_Error ''Server error''
                   (ValidationError
                      ((if required_ok (name (body nameless_request)) then [] else [''name'']) @
                       (if required_ok (jobTitle (body nameless_request)) then [] else [''jobTitle''])))),
                 id [], FindOne # [] @ [] @ [Save])"
    by (rule conjunct2)
  with reach have "save_profile example_env id nameless_request [] =
                (Responded 500 (Message_Error ''Server error''
                   (ValidationError
                      ((if required_ok (name (body nameless_request)) then [] else [''name'']) @
                       (if required_ok (jobTitle (body nameless_request)) then [] else [''jobTitle''])))),
                 id [], FindOne # [] @ [] @ [Save])"
    by blast
  then show ?thesis
    by (simp add: nameless_request_def no_fields_def required_ok_def)
qed

text \<open>The claim as written fails: the request below lacks \<open>name\<close> and is answered with 500.\<close>

theorem create_missing_name_counterexample:
  "save_profile example_env id nameless_request [] =
     (Responded 500 (Message_Error ''Server error'' (ValidationError [''name''])), [],
      [FindOne, Save])"
  by code_simp








section \<open>Update\<close>










section \<open>Delete\<close>

lemma is_plain_john_smith: "is_plain ''john smith''"
  by (simp add: is_plain_def is_quantifier_def is_other_meta_def)

lemma delete_john_smith:
  "delete_profile e ''john-smith'' [john_smith_doc] =
     (Responded 200 (Message ''Profile deleted successfully''), [], [FindOneAndDelete])"
proof -
  have "toLowerCase ''John Smith'' = toLowerCase ''john smith''" by code_simp
  moreover have "\<forall>c \<in> set ''John Smith''. \<not> is_line_terminator c"
    by (simp add: is_line_terminator_def)
  ultimately have "username_matches
      (test_items e (''^'' @ ''john smith'' @ ''$'') (literal_items ''john smith''))
      john_smith_doc"
    by (simp add: username_matches_def john_smith_doc_def test_items_plain)
  then show ?thesis
    using regexp_plain [OF is_plain_john_smith, of e] by (simp add: delete_profile_def)
qed

lemma is_plain_jr: "is_plain ''john smith-jr''"
  by (simp add: is_plain_def is_quantifier_def is_other_meta_def)

lemma lower_jr: "toLowerCase ''John Smith-Jr'' = toLowerCase ''john smith-jr''"
  by code_simp

lemma lower_not_jr:
  "toLowerCase ''John Smith'' \<noteq> toLowerCase ''john smith-jr''"
  by code_simp

text \<open>
  Claim C2, as the code has it. The delete handler replaces the first hyphen of the path
  key, and only that one, with a space: \<^verbatim>\<open>john-smith-jr\<close> gives \<^verbatim>\<open>john smith-jr\<close>. The
  result is the pattern, anchored at both ends and read without regard to letter case: the
  key \<^verbatim>\<open>john-smith\<close> deletes the profile named \<^verbatim>\<open>John Smith\<close>, and for a plain result
  the pattern matches, among the usernames without a line terminator, those equal to it
  when letter case is ignored. When the pattern compiles, the first matching profile is
  removed, and only that one, with the answer 200; when no profile matches, the answer is
  404 and the collection is as it was. When the pattern does not compile, the answer is
  500, not 404.
\<close>

theorem delete_first_hyphen_pattern:
  "replace_first_hyphen ''john-smith-jr'' = ''john smith-jr'' \<and>
   (\<forall>a b. CHR ''-'' \<notin> set a \<longrightarrow> replace_first_hyphen (a @ ''-'' @ b) = a @ '' '' @ b) \<and>
   (CHR ''-'' \<notin> set key \<longrightarrow> replace_first_hyphen key = key) \<and>
   delete_profile e ''john-smith'' [john_smith_doc] =
     (Responded 200 (Message ''Profile deleted successfully''), [], [FindOneAndDelete]) \<and>
   (is_plain (replace_first_hyphen key) \<longrightarrow>
      (\<exists>t. regexp e (''^'' @ replace_first_hyphen key @ ''$'') = Some t \<and>
           (\<forall>u. (\<forall>c \<in> set u. \<not> is_line_terminator c) \<longrightarrow>
                (t u \<longleftrightarrow> toLowerCase u = toLowerCase (replace_first_hyphen key))))) \<and>
   (\<forall>t. regexp e (''^'' @ replace_first_hyphen key @ ''$'') = Some t \<longrightarrow>
      ((\<forall>p \<in> set db. \<not> username_matches t p) \<longrightarrow>
         delete_profile e key db =
           (Responded 404 (Message ''Profile not found''), db, [FindOneAndDelete])) \<and>
      (\<forall>pre p post. db = pre @ p # post \<and> username_matches t p \<and>
           (\<forall>q \<in> set pre. \<not> username_matches t q) \<longrightarrow>
         delete_profile e key db =
           (Responded 200 (Message ''Profile deleted successfully''), pre @ post,
            [FindOneAndDelete]))) \<and>
   (regexp e (''^'' @ replace_first_hyphen key @ ''$'') = None \<longrightarrow>
      delete_profile e key db = (Responded 500 (Error_Message SyntaxError), db, []))"
proof (intro conjI allI impI)
  show "replace_first_hyphen ''john-smith-jr'' = ''john smith-jr''" by simp
  show "replace_first_hyphen (a @ ''-'' @ b) = a @ '' '' @ b" if "CHR ''-'' \<notin> set a" for a b
    using that by (rule replace_first_hyphen_first)
  show "replace_first_hyphen key = key" if "CHR ''-'' \<notin> set key"
    using that by (rule replace_first_hyphen_none)
  show "delete_profile e ''john-smith'' [john_smith_doc] =
     (Responded 200 (Message ''Profile deleted successfully''), [], [FindOneAndDelete])"
    by (rule delete_john_smith)
  show "\<exists>t. regexp e (''^'' @ replace_first_hyphen key @ ''$'') = Some t \<and>
           (\<forall>u. (\<forall>c \<in> set u. \<not> is_line_terminator c) \<longrightarrow>
                (t u \<longleftrightarrow> toLowerCase u = toLowerCase (replace_first_hyphen key)))"
    if "is_plain (replace_first_hyphen key)"
    using regexp_plain [OF that, of e] test_items_plain by blast
next
  fix t
  assume t: "regexp e (''^'' @ replace_first_hyphen key @ ''$'') = Some t"
  show "delete_profile e key db =
           (Responded 404 (Message ''Profile not found''), db, [FindOneAndDelete])"
    if "\<forall>p \<in> set db. \<not> username_matches t p"
    using t findOneAndDelete_none [OF that] by (simp add: delete_profile_def)
  show "delete_profile e key db =
           (Responded 200 (Message ''Profile deleted successfully''), pre @ post,
            [FindOneAndDelete])"
    if "db = pre @ p # post \<and> username_matches t p \<and>
        (\<forall>q \<in> set pre. \<not> username_matches t q)" for pre p post
    using t that findOneAndDelete_first [of "username_matches t" p pre post]
    by (simp add: delete_profile_def)
next
  show "delete_profile e key db = (Responded 500 (Error_Message SyntaxError), db, [])"
    if "regexp e (''^'' @ replace_first_hyphen key @ ''$'') = None"
    using that by (simp add: delete_profile_def)
qed

theorem delete_first_hyphen_pattern_witness:
  "replace_first_hyphen ''john-smith-jr'' = ''john smith-jr'' \<and>
   delete_profile example_env ''john-smith-jr'' [john_smith_doc, jr_doc] =
     (Responded 200 (Message ''Profile deleted successfully''), [john_smith_doc],
      [FindOneAndDelete]) \<and>
   delete_profile example_env ''john-smith-jr'' [john_smith_doc] =
     (Responded 404 (Message ''Profile not found''), [john_smith_doc], [FindOneAndDelete])"
proof -
  note D = delete_first_hyphen_pattern
  have r: "replace_first_hyphen ''john-smith-jr'' = ''john smith-jr''"
    by simp
  have plain: "is_plain (replace_first_hyphen ''john-smith-jr'')"
    using is_plain_jr by (simp only: r)
  from D [of "''john-smith-jr''" example_env "[john_smith_doc, jr_doc]"] plain
  obtain t where
    t: "regexp example_env (''^'' @ replace_first_hyphen ''john-smith-jr'' @ ''$'') = Some t"
      "\<forall>u. (\<forall>c \<in> set u. \<not> is_line_terminator c) \<longrightarrow>
           (t u \<longleftrightarrow> toLowerCase u = toLowerCase (replace_first_hyphen ''john-smith-jr''))"
    by blast
  have hit: "username_matches t jr_doc"
    using t(2) lower_jr no_lines_examples(1) by (simp add: username_matches_def jr_doc_def)
  have miss: "\<not> username_matches t john_smith_doc"
    using t(2) lower_not_jr no_lines_examples(2)
    by (simp add: username_matches_def john_smith_doc_def)
  have found: "[john_smith_doc, jr_doc] = [john_smith_doc] @ jr_doc # [] \<and>
      username_matches t jr_doc \<and> (\<forall>q \<in> set [john_smith_doc]. \<not> username_matches t q)"
    using hit miss by simp
  have 1: "delete_profile example_env ''john-smith-jr'' [john_smith_doc, jr_doc] =
     (Responded 200 (Message ''Profile deleted successfully''), [john_smith_doc] @ [],
      [FindOneAndDelete])"
    using D [of "''john-smith-jr''" example_env "[john_smith_doc, jr_doc]"] t(1) found
    by blast
  have none: "\<forall>p \<in> set [john_smith_doc]. \<not> username_matches t p"
    using miss by simp
  have 2: "delete_profile example_env ''john-smith-jr'' [john_smith_doc] =
     (Responded 404 (Message ''Profile not found''), [john_smith_doc], [FindOneAndDelete])"
    using D [of "''john-smith-jr''" example_env "[john_smith_doc]"] t(1) none
    by blast
  from r 1 2 show ?thesis by simp
qed

text \<open>
  The claim as written fails for a key that is no pattern: with the key \<^verbatim>\<open>*\<close> and an
  empty collection no profile matches, and the answer is 500.
\<close>

theorem delete_invalid_pattern_counterexample:
  "delete_profile example_env ''*'' [] = (Responded 500 (Error_Message SyntaxError), [], [])"
  by code_simp

section \<open>Metacharacters in the path key\<close>

text \<open>
  Claim C10. The path key goes into the pattern as it is. With the key \<^verbatim>\<open>a.c\<close> (which has
  no hyphen, so the delete handler uses it unchanged) the dot matches any character: the
  profile named \<^verbatim>\<open>abc\<close>, whose username is not the key in any letter case, is updated by
  the update handler and deleted by the delete handler, in every environment.
\<close>

theorem unescaped_dot_matches_other_username:
  "toLowerCase ''abc'' \<noteq> toLowerCase ''a.c'' \<and> replace_first_hyphen ''a.c'' = ''a.c'' \<and>
   update_profile e ''a.c'' rename_request [abc_doc] =
     (Responded 200 (Document (apply_update (omit_undefined e) renamed_doc abc_doc)),
      [apply_update (omit_undefined e) renamed_doc abc_doc], [FindOneAndUpdate]) \<and>
   username (apply_update (omit_undefined e) renamed_doc abc_doc) = Some ''renamed'' \<and>
   delete_profile e ''a.c'' [abc_doc] =
     (Responded 200 (Message ''Profile deleted successfully''), [], [FindOneAndDelete])"
proof -
  let ?its = "[(Lit CHR ''a'', Once), (AnyChar, Once), (Lit CHR ''c'', Once)]"
  have pat: "regexp e ''^a.c$'' = Some (test_items e ''^a.c$'' ?its)"
    by (simp add: regexp_def compile_def is_quantifier_def is_other_meta_def)
  have m: "match_items ?its ''abc''"
    by code_simp
  have "\<forall>c \<in> set ''abc''. \<not> is_line_terminator c"
    by (simp add: is_line_terminator_def)
  with m have "test_items e ''^a.c$'' ?its ''abc''"
    by (simp only: test_items_no_lines)
  then have m': "username_matches (test_items e ''^a.c$'' ?its) abc_doc"
    by (simp add: username_matches_def abc_doc_def)
  have upd: "update_fields (body rename_request) (Some ''https://img.example/old'') None
      (JObj []) = renamed_doc"
    by (simp add: update_fields_def rename_request_def no_fields_def renamed_doc_def)
  have 1: "toLowerCase ''abc'' \<noteq> toLowerCase ''a.c''" by code_simp
  have 2: "replace_first_hyphen ''a.c'' = ''a.c''" by simp
  have 3: "update_profile e ''a.c'' rename_request [abc_doc] =
     (Responded 200 (Document (apply_update (omit_undefined e) renamed_doc abc_doc)),
      [apply_update (omit_undefined e) renamed_doc abc_doc], [FindOneAndUpdate])"
    using pat m' upd
    by (simp add: update_profile_def Let_def parse_socialLinks_def upload_or_def
        rename_request_def no_fields_def findOneAndUpdate_def)
  have 4: "username (apply_update (omit_undefined e) renamed_doc abc_doc) = Some ''renamed''"
    by (simp add: apply_update_def set_field_def renamed_doc_def)
  have 5: "delete_profile e ''a.c'' [abc_doc] =
     (Responded 200 (Message ''Profile deleted successfully''), [], [FindOneAndDelete])"
    using pat m' by (simp add: delete_profile_def)
  from 1 2 3 4 5 show ?thesis by blast
qed

end
